theory Spec2Isabelle
  imports Complex_Main "HOL-Library.Word"
begin

section \<open>Node parameters (src/app/node/param.cpp)\<close>

subsection \<open>Data types and the compatibility predicate\<close>

text \<open>
  \<open>NodeParam::DataType\<close>, in the order in which \<open>GetDefaultDataTypeName\<close> and
  \<open>ValueToBytes\<close> enumerate it.
\<close>

datatype DataType =
    kNone | kInt | kFloat | kColor | kString | kBoolean | kFont | kFile | kTexture
  | kMatrix | kBlock | kFootage | kTrack | kRational | kVec2 | kVec3 | kVec4 | kAny

text \<open>
  \<open>NodeParam::AreDataTypesCompatible(const DataType&, const DataType&)\<close>: the four tests
  of the source, in the source's order.
\<close>

definition AreDataTypesCompatible :: "DataType \<Rightarrow> DataType \<Rightarrow> bool" where
  "AreDataTypesCompatible output_type input_type =
     (if input_type = output_type then True
      else if input_type = kNone then False
      else if input_type = kAny then True
      else if output_type = kInt \<and> input_type = kFloat then True
      else False)"

text \<open>
  \<open>NodeParam::AreDataTypesCompatible(const DataType&, const QList<DataType>&)\<close>: the loop
  over the list returns at the first compatible entry.
\<close>

fun AreDataTypesCompatible_list :: "DataType \<Rightarrow> DataType list \<Rightarrow> bool" where
  "AreDataTypesCompatible_list output_type [] = False"
| "AreDataTypesCompatible_list output_type (t # ts) =
     (if AreDataTypesCompatible output_type t then True
      else AreDataTypesCompatible_list output_type ts)"

subsection \<open>Objects and the store\<close>

text \<open>
  Parameters, edges, nodes and graphs are objects reached through pointers. A pointer is a
  reference into a store; \<open>NodeOutput*\<close> and \<open>NodeInput*\<close> point to objects of different
  classes, so each class has a store of its own. \<open>NodeEdgePtr\<close> is compared by pointer, so
  an edge is its reference. A reference names an object, not an address: \<open>std::make_shared\<close>
  takes the next reference that was never used, also when the allocator would hand out the
  address of an edge that was freed.
\<close>

type_synonym output_ref = nat
type_synonym input_ref = nat
type_synonym edge_ref = nat
type_synonym node_ref = nat
type_synonym graph_ref = nat

record NodeEdge =
  edge_output :: output_ref
  edge_input :: input_ref

text \<open>
  The members of \<open>NodeParam\<close> (\<open>id_\<close>, \<open>name_\<close>, \<open>edges_\<close>, \<open>time_\<close>, \<open>value_caching_\<close>)
  under the names of their accessors, since a name cannot end in an underscore here;
  \<open>parent\<close> is the owning Node (\<open>QObject::parent()\<close>). \<open>NodeOutput\<close> adds its data type,
  \<open>NodeInput\<close> its list of accepted types (\<open>inputs_\<close>).
\<close>

record NodeParam =
  param_id :: string
  param_name :: string
  parent :: node_ref
  edges :: "edge_ref list"
  time :: rat
  value_caching :: bool

record NodeOutput = NodeParam +
  data_type :: DataType

record NodeInput = NodeParam +
  inputs :: "DataType list"

text \<open>The two signals that the connection functions emit, both on the input.\<close>

datatype Signal = EdgeAdded input_ref edge_ref | EdgeRemoved input_ref edge_ref

record Graph_state =
  output_store :: "output_ref \<Rightarrow> NodeOutput"
  input_store :: "input_ref \<Rightarrow> NodeInput"
  edge_heap :: "edge_ref \<Rightarrow> NodeEdge"
  next_edge :: edge_ref
  node_graph :: "node_ref \<Rightarrow> graph_ref"
  emitted :: "Signal list"

text \<open>
  Modelled from the spec: \<open>NodeInput::can_accept_type\<close> is declared in input.h and defined
  in input.cpp, which is not among the sources. The spec (4.1) and the declaration's comment
  say that the input checks the output's type against its list of accepted types: compatible
  with at least one member.
\<close>

definition can_accept_type :: "NodeInput \<Rightarrow> DataType \<Rightarrow> bool" where
  "can_accept_type inp t = AreDataTypesCompatible_list t (inputs inp)"

subsection \<open>The cached time\<close>

text \<open>\<open>NodeParam::ClearCachedValue\<close>: the cached time becomes \<open>-1\<close>.\<close>

definition ClearCachedValue :: "'a NodeParam_scheme \<Rightarrow> 'a NodeParam_scheme" where
  "ClearCachedValue p = p\<lparr>time := - 1\<rparr>"

text \<open>
  The comment in \<open>ClearCachedValue\<close>: \<open>get_value()\<close> never receives a negative number. A
  valid request time is a time that is not negative.
\<close>

definition valid_request_time :: "rat \<Rightarrow> bool" where
  "valid_request_time t = (0 \<le> t)"

subsection \<open>Disconnecting\<close>

text \<open>
  \<open>NodeParam::DisconnectEdge(NodeEdgePtr)\<close>. \<open>Lock\<close> and \<open>Unlock\<close> of the two nodes guard
  against other threads and change nothing in a sequential run. The edge is removed from
  the list of its output, then from the list of its input (\<open>QVector::removeAll\<close>), the
  input's cache is cleared and \<open>EdgeRemoved\<close> is emitted.
\<close>

definition DisconnectEdge :: "Graph_state \<Rightarrow> edge_ref \<Rightarrow> Graph_state" where
  "DisconnectEdge s edge =
     (let out = edge_output (edge_heap s edge);
          inp = edge_input (edge_heap s edge);
          s1 = s\<lparr>output_store := (output_store s)
                 (out := (output_store s out)\<lparr>edges := removeAll edge (edges (output_store s out))\<rparr>)\<rparr>;
          s2 = s1\<lparr>input_store := (input_store s1)
                 (inp := (input_store s1 inp)\<lparr>edges := removeAll edge (edges (input_store s1 inp))\<rparr>)\<rparr>;
          s3 = s2\<lparr>input_store := (input_store s2)(inp := ClearCachedValue (input_store s2 inp))\<rparr>
      in s3\<lparr>emitted := emitted s3 @ [EdgeRemoved inp edge]\<rparr>)"

text \<open>
  The scan of \<open>NodeParam::DisconnectEdge(NodeOutput*, NodeInput*)\<close>: the first edge of the
  list whose input is the given one, if there is one.
\<close>

fun first_edge_to :: "(edge_ref \<Rightarrow> NodeEdge) \<Rightarrow> input_ref \<Rightarrow> edge_ref list \<Rightarrow> edge_ref option" where
  "first_edge_to heap inp [] = None"
| "first_edge_to heap inp (edge # rest) =
     (if edge_input (heap edge) = inp then Some edge else first_edge_to heap inp rest)"

text \<open>
  \<open>NodeParam::DisconnectEdge(NodeOutput*, NodeInput*)\<close>: disconnects the edge the scan finds
  and leaves the loop; when the scan finds none, the loop ends and nothing was done.
\<close>

definition DisconnectEdge_between :: "Graph_state \<Rightarrow> output_ref \<Rightarrow> input_ref \<Rightarrow> Graph_state" where
  "DisconnectEdge_between s out inp =
     (case first_edge_to (edge_heap s) inp (edges (output_store s out)) of
        None \<Rightarrow> s
      | Some edge \<Rightarrow> DisconnectEdge s edge)"

text \<open>
  \<open>NodeParam::DisconnectForNewOutput\<close>: when the input has an edge, its first edge is
  disconnected and returned; otherwise the result is null. The source tests nothing else.
\<close>

definition DisconnectForNewOutput :: "Graph_state \<Rightarrow> input_ref \<Rightarrow> edge_ref option \<times> Graph_state" where
  "DisconnectForNewOutput s inp =
     (case edges (input_store s inp) of
        [] \<Rightarrow> (None, s)
      | edge # _ \<Rightarrow> (Some edge, DisconnectEdge s edge))"

subsection \<open>Connecting\<close>

text \<open>The \<open>foreach\<close> of \<open>ConnectEdge\<close>: is one of the edges an edge from this output?\<close>

fun has_edge_from :: "(edge_ref \<Rightarrow> NodeEdge) \<Rightarrow> output_ref \<Rightarrow> edge_ref list \<Rightarrow> bool" where
  "has_edge_from heap out [] = False"
| "has_edge_from heap out (existing # rest) =
     (if edge_output (heap existing) = out then True else has_edge_from heap out rest)"

text \<open>
  \<open>NodeParam::ConnectEdge\<close>, statement by statement: \<open>DisconnectForNewOutput\<close> first, then
  the three tests, each of which returns null, then the new edge, appended to the list of
  the output and to the list of the input, the input's cache cleared and \<open>EdgeAdded\<close>
  emitted. The result is the returned pointer (\<open>None\<close> for null) and the state. The
  messages of \<open>qWarning\<close> go to the log and are not part of the state.
\<close>

definition ConnectEdge :: "Graph_state \<Rightarrow> output_ref \<Rightarrow> input_ref \<Rightarrow> edge_ref option \<times> Graph_state" where
  "ConnectEdge s out inp =
     (let s1 = snd (DisconnectForNewOutput s inp) in
      if has_edge_from (edge_heap s1) out (edges (input_store s1 inp)) then (None, s1)
      else if \<not> can_accept_type (input_store s1 inp) (data_type (output_store s1 out)) then (None, s1)
      else if node_graph s1 (parent (output_store s1 out)) \<noteq> node_graph s1 (parent (input_store s1 inp))
        then (None, s1)
      else
        (let edge = next_edge s1;
             s2 = s1\<lparr>edge_heap := (edge_heap s1)(edge := \<lparr>edge_output = out, edge_input = inp\<rparr>),
                     next_edge := Suc edge\<rparr>;
             s3 = s2\<lparr>output_store := (output_store s2)
                    (out := (output_store s2 out)\<lparr>edges := edges (output_store s2 out) @ [edge]\<rparr>)\<rparr>;
             s4 = s3\<lparr>input_store := (input_store s3)
                    (inp := (input_store s3 inp)\<lparr>edges := edges (input_store s3 inp) @ [edge]\<rparr>)\<rparr>;
             s5 = s4\<lparr>input_store := (input_store s4)(inp := ClearCachedValue (input_store s4 inp))\<rparr>
         in (Some edge, s5\<lparr>emitted := emitted s5 @ [EdgeAdded inp edge]\<rparr>)))"

text \<open>
  A sequence of editing operations: the three public entry points that change edges.
\<close>

datatype Edit =
    Connect output_ref input_ref
  | Disconnect edge_ref
  | DisconnectBetween output_ref input_ref

fun apply_edit :: "Graph_state \<Rightarrow> Edit \<Rightarrow> Graph_state" where
  "apply_edit s (Connect out inp) = snd (ConnectEdge s out inp)"
| "apply_edit s (Disconnect edge) = DisconnectEdge s edge"
| "apply_edit s (DisconnectBetween out inp) = DisconnectEdge_between s out inp"

fun apply_edits :: "Graph_state \<Rightarrow> Edit list \<Rightarrow> Graph_state" where
  "apply_edits s [] = s"
| "apply_edits s (e # es) = apply_edits (apply_edit s e) es"

text \<open>
  An edge is on both sides when it is in the list of its output and in the list of its
  input, on neither side when it is in neither list.
\<close>

definition on_output_side :: "Graph_state \<Rightarrow> edge_ref \<Rightarrow> bool" where
  "on_output_side s e = (e \<in> set (edges (output_store s (edge_output (edge_heap s e)))))"

definition on_input_side :: "Graph_state \<Rightarrow> edge_ref \<Rightarrow> bool" where
  "on_input_side s e = (e \<in> set (edges (input_store s (edge_input (edge_heap s e)))))"

definition two_sided :: "Graph_state \<Rightarrow> bool" where
  "two_sided s = (\<forall>e. on_output_side s e = on_input_side s e)"

subsection \<open>Persistence encoding\<close>

text \<open>
  The C++ types at which \<open>ValueToBytes\<close> instantiates the template
  \<open>ValueToBytesInternal<T>\<close>.
\<close>

datatype CType =
    T_int | T_float | T_QColor | T_QString | T_bool | T_QMatrix4x4 | T_rational
  | T_QVector2D | T_QVector3D | T_QVector4D

text \<open>
  \<open>NodeParam::ValueToBytesInternal<T>\<close>: a byte array of \<open>sizeof(T)\<close> bytes that receives,
  by \<open>memcpy\<close>, the first \<open>sizeof(T)\<close> bytes of \<open>v.value<T>()\<close>. The size of each type and
  the bytes of a value converted to it belong to the compiler and to Qt; they are the
  parameters \<open>size_of\<close> and \<open>raw\<close>.
\<close>

definition ValueToBytesInternal ::
  "(CType \<Rightarrow> nat) \<Rightarrow> (CType \<Rightarrow> 'v \<Rightarrow> 8 word list) \<Rightarrow> CType \<Rightarrow> 'v \<Rightarrow> 8 word list" where
  "ValueToBytesInternal size_of raw T v =
     (let size_of_type = size_of T; raw_val = raw T v in take size_of_type raw_val)"

text \<open>
  \<open>NodeParam::ValueToBytes\<close>: the \<open>switch\<close> of the source, case by case; the five cases
  that \<open>break\<close> reach the final \<open>return QByteArray()\<close>.
\<close>

fun ValueToBytes ::
  "(CType \<Rightarrow> nat) \<Rightarrow> (CType \<Rightarrow> 'v \<Rightarrow> 8 word list) \<Rightarrow> DataType \<Rightarrow> 'v \<Rightarrow> 8 word list" where
  "ValueToBytes size_of raw kInt v = ValueToBytesInternal size_of raw T_int v"
| "ValueToBytes size_of raw kFloat v = ValueToBytesInternal size_of raw T_float v"
| "ValueToBytes size_of raw kColor v = ValueToBytesInternal size_of raw T_QColor v"
| "ValueToBytes size_of raw kString v = ValueToBytesInternal size_of raw T_QString v"
| "ValueToBytes size_of raw kBoolean v = ValueToBytesInternal size_of raw T_bool v"
| "ValueToBytes size_of raw kFont v = ValueToBytesInternal size_of raw T_QString v"
| "ValueToBytes size_of raw kFile v = ValueToBytesInternal size_of raw T_QString v"
| "ValueToBytes size_of raw kMatrix v = ValueToBytesInternal size_of raw T_QMatrix4x4 v"
| "ValueToBytes size_of raw kFootage v = ValueToBytesInternal size_of raw T_float v"
| "ValueToBytes size_of raw kRational v = ValueToBytesInternal size_of raw T_rational v"
| "ValueToBytes size_of raw kVec2 v = ValueToBytesInternal size_of raw T_QVector2D v"
| "ValueToBytes size_of raw kVec3 v = ValueToBytesInternal size_of raw T_QVector3D v"
| "ValueToBytes size_of raw kVec4 v = ValueToBytesInternal size_of raw T_QVector4D v"
| "ValueToBytes size_of raw kNone v = []"
| "ValueToBytes size_of raw kTexture v = []"
| "ValueToBytes size_of raw kBlock v = []"
| "ValueToBytes size_of raw kTrack v = []"
| "ValueToBytes size_of raw kAny v = []"

section \<open>Probing media (src/app/decoder/decoder.cpp)\<close>

text \<open>\<open>Footage::Status\<close> (footage.h).\<close>

datatype Status = kUnprobed | kUnindexed | kReady | kInvalid

text \<open>
  The members of \<open>Footage\<close> (footage.h: \<open>filename_\<close>, \<open>timestamp_\<close>, \<open>streams_\<close>, \<open>status_\<close>,
  \<open>decoder_\<close>). The stream type is a parameter; a null \<open>QDateTime\<close> is \<open>None\<close>.
\<close>

record 's Footage =
  filename :: string
  timestamp :: "nat option"
  streams :: "'s list"
  status :: Status
  decoder :: string

text \<open>
  Modelled from the spec: \<open>Footage::set_status\<close>, \<open>Footage::set_decoder\<close> and \<open>Footage::Clear\<close>
  are declared in footage.h and defined in footage.cpp, which is not among the sources.
  Their declarations' comments say: \<open>set_status\<close> sets the current status; \<open>set_decoder\<close>
  attaches the decoder's id; \<open>Clear\<close> resets the state to that of a freshly created object,
  keeping the filename.
\<close>

definition set_status :: "'s Footage \<Rightarrow> Status \<Rightarrow> 's Footage" where
  "set_status f st = f\<lparr>status := st\<rparr>"

definition set_decoder :: "'s Footage \<Rightarrow> string \<Rightarrow> 's Footage" where
  "set_decoder f ident = f\<lparr>decoder := ident\<rparr>"

definition Clear :: "'s Footage \<Rightarrow> 's Footage" where
  "Clear f = \<lparr>filename = filename f, timestamp = None, streams = [], status = kUnprobed,
              decoder = []\<rparr>"

text \<open>
  A decoder, as far as \<open>ProbeMedia\<close> uses one: the virtual functions \<open>id()\<close> and
  \<open>Probe(Footage*)\<close>. \<open>Probe\<close> returns its verdict and the footage as it leaves it. The
  two subclasses are defined elsewhere, so a decoder is a value that carries both.
\<close>

record 's Decoder =
  decoder_id :: string
  Probe :: "'s Footage \<Rightarrow> bool \<times> 's Footage"

text \<open>
  \<open>ReceiveListOfAllDecoders\<close>: the OpenImageIO decoder is appended first, the FFmpeg
  decoder second.
\<close>

definition ReceiveListOfAllDecoders :: "'s Decoder \<Rightarrow> 's Decoder \<Rightarrow> 's Decoder list" where
  "ReceiveListOfAllDecoders OIIODecoder FFmpegDecoder = [OIIODecoder, FFmpegDecoder]"

text \<open>
  The loop of \<open>ProbeMedia\<close> over the list, with the two statements after it: the first
  decoder whose \<open>Probe\<close> returns true ends the function with true, status \<open>kReady\<close> and its
  id; after the last decoder the status is \<open>kInvalid\<close>, the id empty and the result false.
\<close>

fun probe_loop :: "'s Decoder list \<Rightarrow> 's Footage \<Rightarrow> bool \<times> 's Footage" where
  "probe_loop [] f = (False, set_decoder (set_status f kInvalid) [])"
| "probe_loop (d # rest) f =
     (let (accepted, f') = Probe d f in
      if accepted then (True, set_decoder (set_status f' kReady) (decoder_id d))
      else probe_loop rest f')"

text \<open>
  \<open>Decoder::ProbeMedia\<close>. \<open>file_exists\<close> is \<open>QFileInfo::exists\<close>, the state of the file
  system. The two early returns come before \<open>f->Clear()\<close>; their warnings go to the log.
\<close>

definition ProbeMedia ::
  "(string \<Rightarrow> bool) \<Rightarrow> 's Decoder \<Rightarrow> 's Decoder \<Rightarrow> 's Footage \<Rightarrow> bool \<times> 's Footage" where
  "ProbeMedia file_exists OIIODecoder FFmpegDecoder f =
     (if filename f = [] then (False, f)
      else if \<not> file_exists (filename f) then (False, f)
      else probe_loop (ReceiveListOfAllDecoders OIIODecoder FFmpegDecoder) (Clear f))"

section \<open>Invariants and example objects\<close>

text \<open>
  A graph state is well formed when every edge in a parameter's list has been allocated
  and has that parameter as its endpoint on that side.
\<close>

definition well_formed :: "Graph_state \<Rightarrow> bool" where
  "well_formed s =
     ((\<forall>r e. e \<in> set (edges (output_store s r)) \<longrightarrow>
          e < next_edge s \<and> edge_output (edge_heap s e) = r) \<and>
      (\<forall>r e. e \<in> set (edges (input_store s r)) \<longrightarrow>
          e < next_edge s \<and> edge_input (edge_heap s e) = r))"

text \<open>
  The scenario of the spec's section 8: outputs 0 (Float), 1 (String) and 3 (Int) on node 0,
  output 2 (Float) on node 2, every input accepting Int and Float on node 1; nodes 0 and 1
  are in graph 0, node 2 in graph 1; no edge yet, and every cached time is 5.
\<close>

definition scene :: Graph_state where
  "scene =
     \<lparr>output_store = (\<lambda>r. \<lparr>param_id = ''out'', param_name = [], parent = (if r = 2 then 2 else 0),
                           edges = [], time = 5, value_caching = True,
                           data_type = (if r = 1 then kString else if r = 3 then kInt else kFloat)\<rparr>),
      input_store = (\<lambda>r. \<lparr>param_id = ''in'', param_name = [], parent = 1,
                          edges = [], time = 5, value_caching = True,
                          inputs = [kInt, kFloat]\<rparr>),
      edge_heap = (\<lambda>r. \<lparr>edge_output = 0, edge_input = 0\<rparr>),
      next_edge = 0,
      node_graph = (\<lambda>n. if n = 2 then 1 else 0),
      emitted = []\<rparr>"

text \<open>The scene after output 0 has been connected to input 0.\<close>

definition connected_scene :: Graph_state where
  "connected_scene = snd (ConnectEdge scene 0 0)"

text \<open>The connected scene after input 0 has been resolved at time 5 again.\<close>

definition resolved_scene :: Graph_state where
  "resolved_scene =
     connected_scene\<lparr>input_store := (input_store connected_scene)
        (0 := (input_store connected_scene 0)\<lparr>time := 5\<rparr>)\<rparr>"

text \<open>
  The state that the last branch of \<open>ConnectEdge\<close> builds from the state \<open>s1\<close> that
  \<open>DisconnectForNewOutput\<close> left, in closed form.
\<close>

definition with_new_edge :: "Graph_state \<Rightarrow> output_ref \<Rightarrow> input_ref \<Rightarrow> Graph_state" where
  "with_new_edge s1 out inp =
     s1\<lparr>edge_heap := (edge_heap s1)(next_edge s1 := \<lparr>edge_output = out, edge_input = inp\<rparr>),
        next_edge := Suc (next_edge s1),
        output_store := (output_store s1)
          (out := (output_store s1 out)\<lparr>edges := edges (output_store s1 out) @ [next_edge s1]\<rparr>),
        input_store := (input_store s1)
          (inp := (input_store s1 inp)\<lparr>edges := edges (input_store s1 inp) @ [next_edge s1],
                                        time := - 1\<rparr>),
        emitted := emitted s1 @ [EdgeAdded inp (next_edge s1)]\<rparr>"

text \<open>File systems, footage and decoders for the examples.\<close>

definition any_file :: "string \<Rightarrow> bool" where
  "any_file name = True"

definition no_file :: "string \<Rightarrow> bool" where
  "no_file name = False"

definition fresh_footage :: "string \<Rightarrow> string Footage" where
  "fresh_footage name =
     \<lparr>filename = name, timestamp = None, streams = [], status = kUnprobed, decoder = []\<rparr>"

definition probed_footage :: "string \<Rightarrow> string Footage" where
  "probed_footage name =
     \<lparr>filename = name, timestamp = Some 7, streams = [''video''], status = kReady,
      decoder = ''ffmpeg''\<rparr>"

definition reject_all :: "string \<Rightarrow> string Decoder" where
  "reject_all ident = \<lparr>decoder_id = ident, Probe = (\<lambda>f. (False, f))\<rparr>"

definition accept_all :: "string \<Rightarrow> string Decoder" where
  "accept_all ident =
     \<lparr>decoder_id = ident, Probe = (\<lambda>f. (True, f\<lparr>streams := streams f @ [ident]\<rparr>))\<rparr>"

section \<open>Theorems\<close>

lemma AreDataTypesCompatible_iff:
  "AreDataTypesCompatible out_t in_t \<longleftrightarrow> out_t = in_t \<or> in_t = kAny \<or> (out_t = kInt \<and> in_t = kFloat)"
  by (cases in_t; cases out_t) (simp_all add: AreDataTypesCompatible_def)

lemmas model_defs =
  ConnectEdge_def DisconnectForNewOutput_def DisconnectEdge_def DisconnectEdge_between_def
  can_accept_type_def AreDataTypesCompatible_def ClearCachedValue_def Let_def

lemmas scene_defs = scene_def connected_scene_def resolved_scene_def

subsection \<open>What the two operations do to the store\<close>

lemma DisconnectEdge_edges_output:
  "edges (output_store (DisconnectEdge s e) r) =
     (if r = edge_output (edge_heap s e) then removeAll e (edges (output_store s r))
      else edges (output_store s r))"
  by (simp add: DisconnectEdge_def ClearCachedValue_def Let_def)

lemma DisconnectEdge_edges_input:
  "edges (input_store (DisconnectEdge s e) r) =
     (if r = edge_input (edge_heap s e) then removeAll e (edges (input_store s r))
      else edges (input_store s r))"
  by (simp add: DisconnectEdge_def ClearCachedValue_def Let_def)

lemma DisconnectEdge_heap [simp]: "edge_heap (DisconnectEdge s e) = edge_heap s"
  by (simp add: DisconnectEdge_def Let_def)

lemma DisconnectEdge_next [simp]: "next_edge (DisconnectEdge s e) = next_edge s"
  by (simp add: DisconnectEdge_def Let_def)

lemma DisconnectEdge_time:
  "time (input_store (DisconnectEdge s e) (edge_input (edge_heap s e))) = - 1"
  by (simp add: DisconnectEdge_def ClearCachedValue_def Let_def)

lemma ConnectEdge_result:
  "ConnectEdge s out inp = (None, snd (DisconnectForNewOutput s inp)) \<or>
   ConnectEdge s out inp =
     (Some (next_edge (snd (DisconnectForNewOutput s inp))),
      with_new_edge (snd (DisconnectForNewOutput s inp)) out inp)"
  by (simp add: ConnectEdge_def Let_def ClearCachedValue_def with_new_edge_def)

lemma ConnectEdge_Some:
  assumes "ConnectEdge s out inp = (Some e, s')"
  shows "e = next_edge (snd (DisconnectForNewOutput s inp))"
    and "s' = with_new_edge (snd (DisconnectForNewOutput s inp)) out inp"
  using assms ConnectEdge_result [of s out inp] by auto

subsection \<open>Well-formed states\<close>

lemma well_formed_DisconnectEdge: "well_formed s \<Longrightarrow> well_formed (DisconnectEdge s e)"
  unfolding well_formed_def
  by (auto simp: DisconnectEdge_edges_output DisconnectEdge_edges_input split: if_splits)

lemma well_formed_DisconnectForNewOutput:
  "well_formed s \<Longrightarrow> well_formed (snd (DisconnectForNewOutput s inp))"
  by (simp add: DisconnectForNewOutput_def well_formed_DisconnectEdge split: list.splits)

lemma well_formed_with_new_edge: "well_formed s1 \<Longrightarrow> well_formed (with_new_edge s1 out inp)"
  unfolding well_formed_def with_new_edge_def
  by (auto simp: less_Suc_eq)

lemma well_formed_ConnectEdge: "well_formed s \<Longrightarrow> well_formed (snd (ConnectEdge s out inp))"
  using ConnectEdge_result [of s out inp]
  by (auto simp: well_formed_DisconnectForNewOutput well_formed_with_new_edge)

lemma well_formed_DisconnectEdge_between:
  "well_formed s \<Longrightarrow> well_formed (DisconnectEdge_between s out inp)"
  by (simp add: DisconnectEdge_between_def well_formed_DisconnectEdge split: option.splits)

lemma well_formed_apply_edits: "well_formed s \<Longrightarrow> well_formed (apply_edits s eds)"
proof (induction eds arbitrary: s)
  case Nil
  then show ?case by simp
next
  case (Cons ed eds)
  have "well_formed (apply_edit s ed)"
    using Cons.prems
    by (cases ed)
      (simp_all add: well_formed_ConnectEdge well_formed_DisconnectEdge
        well_formed_DisconnectEdge_between)
  then show ?case
    by (simp add: Cons.IH)
qed

lemma well_formed_scene: "well_formed scene"
  by (simp add: well_formed_def scene_def)

lemma well_formed_connected_scene: "well_formed connected_scene"
  unfolding connected_scene_def by (rule well_formed_ConnectEdge [OF well_formed_scene])

subsection \<open>Replacing the edge of a connected input\<close>

text \<open>
  C4: in a well-formed state, for every input whose edge list holds exactly one edge, a
  successful ConnectEdge of a different output onto that input leaves exactly one edge on
  the input, the new one, and the prior edge is in neither of its endpoints' edge lists.
\<close>

theorem reconnect_single_input:
  assumes wf: "well_formed s"
    and one: "edges (input_store s inp) = [old]"
    and other: "edge_output (edge_heap s old) \<noteq> out"
    and ok: "ConnectEdge s out inp = (Some new, s')"
  shows "edges (input_store s' inp) = [new]
     \<and> new \<noteq> old
     \<and> edge_heap s' old = edge_heap s old
     \<and> old \<notin> set (edges (output_store s' (edge_output (edge_heap s old))))
     \<and> old \<notin> set (edges (input_store s' (edge_input (edge_heap s old))))"
proof -
  from wf have "\<forall>e. e \<in> set (edges (input_store s inp)) \<longrightarrow>
      e < next_edge s \<and> edge_input (edge_heap s e) = inp"
    by (simp add: well_formed_def)
  with one have old_in: "edge_input (edge_heap s old) = inp" and old_lt: "old < next_edge s"
    by simp_all
  have s1: "snd (DisconnectForNewOutput s inp) = DisconnectEdge s old"
    by (simp add: DisconnectForNewOutput_def one)
  from ConnectEdge_Some [OF ok] s1
  have new: "new = next_edge s" and s': "s' = with_new_edge (DisconnectEdge s old) out inp"
    by simp_all
  from old_lt new have ne: "new \<noteq> old"
    by simp
  have "edges (input_store s' inp) = [new]"
    unfolding s' new using one old_in
    by (simp add: with_new_edge_def DisconnectEdge_edges_input)
  moreover have "edge_heap s' old = edge_heap s old"
    unfolding s' using ne new by (simp add: with_new_edge_def)
  moreover have "old \<notin> set (edges (output_store s' (edge_output (edge_heap s old))))"
    unfolding s' using ne new by (simp add: with_new_edge_def DisconnectEdge_edges_output)
  moreover have "old \<notin> set (edges (input_store s' (edge_input (edge_heap s old))))"
    unfolding s' using ne new by (simp add: with_new_edge_def DisconnectEdge_edges_input)
  ultimately show ?thesis
    using ne by simp
qed

theorem reconnect_single_input_witness:
  "well_formed connected_scene
   \<and> edges (input_store connected_scene 0) = [0]
   \<and> edge_output (edge_heap connected_scene 0) \<noteq> 3
   \<and> fst (ConnectEdge connected_scene 3 0) = Some 1
   \<and> edges (input_store (snd (ConnectEdge connected_scene 3 0)) 0) = [1]
   \<and> 0 \<notin> set (edges (output_store (snd (ConnectEdge connected_scene 3 0)) 0))
   \<and> 0 \<notin> set (edges (input_store (snd (ConnectEdge connected_scene 3 0)) 0))"
proof -
  have one: "edges (input_store connected_scene 0) = [0]"
    by (simp add: model_defs scene_defs)
  have heap: "edge_heap connected_scene 0 = \<lparr>edge_output = 0, edge_input = 0\<rparr>"
    by (simp add: model_defs scene_defs)
  have other: "edge_output (edge_heap connected_scene 0) \<noteq> 3"
    by (simp add: heap)
  have ret: "fst (ConnectEdge connected_scene 3 0) = Some 1"
    by (simp add: model_defs scene_defs)
  then have ok: "ConnectEdge connected_scene 3 0 = (Some 1, snd (ConnectEdge connected_scene 3 0))"
    by (simp add: prod_eq_iff)
  from reconnect_single_input [OF well_formed_connected_scene one other ok]
    well_formed_connected_scene one other ret heap
  show ?thesis
    by simp
qed

subsection \<open>Compatibility of data types\<close>

text \<open>
  C2, as it stands, asks two things of the pair (None, None): compatible, since the types
  are equal, and incompatible, since the input type is None. The source tests equality
  first, so the pair is compatible.
\<close>

theorem compatible_none_with_none: "AreDataTypesCompatible kNone kNone"
  by (simp add: AreDataTypesCompatible_def)

text \<open>
  C2 (amended): for all DataType pairs (o, i), Compatible(o, i) is true if and only if
  o = i, or i = Any, or o = Int and i = Float; and Compatible(o, i) is false whenever
  i = None and o is not None.
\<close>

theorem compatible_characterisation:
  "(AreDataTypesCompatible out_t in_t \<longleftrightarrow>
      out_t = in_t \<or> in_t = kAny \<or> (out_t = kInt \<and> in_t = kFloat))
   \<and> (in_t = kNone \<and> out_t \<noteq> kNone \<longrightarrow> \<not> AreDataTypesCompatible out_t in_t)"
  using AreDataTypesCompatible_iff [of out_t in_t] by auto

theorem compatible_characterisation_witness:
  "kNone = kNone \<and> kInt \<noteq> kNone \<and> \<not> AreDataTypesCompatible kInt kNone
   \<and> AreDataTypesCompatible kInt kFloat \<and> \<not> AreDataTypesCompatible kFloat kInt"
  using compatible_characterisation [of kInt kNone] compatible_characterisation [of kInt kFloat]
    compatible_characterisation [of kFloat kInt]
  by simp

subsection \<open>Disconnecting an edge that is not there\<close>

lemma first_edge_to_None:
  "first_edge_to heap inp es = None \<longleftrightarrow> (\<forall>e \<in> set es. edge_input (heap e) \<noteq> inp)"
  by (induction es) auto

lemma first_edge_to_Some:
  "first_edge_to heap inp es = Some e \<Longrightarrow> e \<in> set es \<and> edge_input (heap e) = inp"
  by (induction es) (auto split: if_splits)

text \<open>
  C8: for every output and input with no edge between them (no edge in the output's list
  leads to the input), DisconnectEdge(output, input) returns and leaves the whole state as
  it was: every edge list, every cached time, and no signal emitted.
\<close>

theorem disconnect_absent_edge_noop:
  assumes "\<forall>e \<in> set (edges (output_store s out)). edge_input (edge_heap s e) \<noteq> inp"
  shows "DisconnectEdge_between s out inp = s"
  using assms by (simp add: DisconnectEdge_between_def first_edge_to_None [THEN iffD2])

theorem disconnect_absent_edge_noop_witness:
  "edges (output_store connected_scene 0) = [0]
   \<and> edge_input (edge_heap connected_scene 0) \<noteq> 1
   \<and> DisconnectEdge_between connected_scene 0 1 = connected_scene"
proof -
  have l: "edges (output_store connected_scene 0) = [0]"
    by (simp add: model_defs scene_defs)
  have h: "edge_input (edge_heap connected_scene 0) \<noteq> 1"
    by (simp add: model_defs scene_defs)
  from l h have "\<forall>e \<in> set (edges (output_store connected_scene 0)).
      edge_input (edge_heap connected_scene e) \<noteq> 1"
    by simp
  from disconnect_absent_edge_noop [OF this] l h show ?thesis
    by simp
qed

subsection \<open>Persistence encoding\<close>

text \<open>
  C9: for every value v, ValueToBytes(type, v) is the empty byte sequence whenever type is
  None, Texture, Block, Track or Any.
\<close>

theorem encode_unpersisted_empty:
  "t \<in> {kNone, kTexture, kBlock, kTrack, kAny} \<Longrightarrow> ValueToBytes size_of raw t v = []"
  by auto

theorem encode_unpersisted_empty_witness:
  "kTexture \<in> {kNone, kTexture, kBlock, kTrack, kAny}
   \<and> ValueToBytes (\<lambda>T. 4) (\<lambda>T v. [v, v, v, v]) kTexture (255 :: 8 word) = []
   \<and> ValueToBytes (\<lambda>T. 4) (\<lambda>T v. [v, v, v, v]) kInt (255 :: 8 word) = [255, 255, 255, 255]"
proof -
  have h: "kTexture \<in> {kNone, kTexture, kBlock, kTrack, kAny}"
    by simp
  from encode_unpersisted_empty [OF h, of "\<lambda>T. 4" "\<lambda>T v. [v, v, v, v]" "255 :: 8 word"] h
  show ?thesis
    by (simp add: ValueToBytesInternal_def)
qed

subsection \<open>Probing a file that cannot be probed\<close>

text \<open>
  C10: for every media record whose filename is empty or names a file that does not exist,
  ProbeMedia returns false and the record is exactly as before: status, stream list and
  decoder identifier included.
\<close>

theorem probe_invalid_filename_untouched:
  "filename f = [] \<or> \<not> file_exists (filename f) \<Longrightarrow>
     ProbeMedia file_exists OIIODecoder FFmpegDecoder f = (False, f)"
  by (auto simp: ProbeMedia_def)

theorem probe_invalid_filename_untouched_witness:
  "filename (probed_footage []) = []
   \<and> \<not> no_file (filename (probed_footage ''clip.mov''))
   \<and> ProbeMedia any_file (accept_all ''oiio'') (accept_all ''ffmpeg'') (probed_footage [])
       = (False, probed_footage [])
   \<and> ProbeMedia no_file (accept_all ''oiio'') (accept_all ''ffmpeg'') (probed_footage ''clip.mov'')
       = (False, probed_footage ''clip.mov'')
   \<and> status (probed_footage ''clip.mov'') = kReady
   \<and> streams (probed_footage ''clip.mov'') = [''video'']"
proof -
  have h1: "filename (probed_footage []) = []"
    by (simp add: probed_footage_def)
  have h2: "\<not> no_file (filename (probed_footage ''clip.mov''))"
    by (simp add: no_file_def)
  from h1 have a1: "filename (probed_footage []) = [] \<or> \<not> any_file (filename (probed_footage []))"
    by simp
  from h2 have a2: "filename (probed_footage ''clip.mov'') = []
      \<or> \<not> no_file (filename (probed_footage ''clip.mov''))"
    by simp
  from probe_invalid_filename_untouched [where file_exists = any_file and f = "probed_footage []", OF a1]
    probe_invalid_filename_untouched [where file_exists = no_file and f = "probed_footage ''clip.mov''", OF a2]
    h1 h2
  show ?thesis
    by (simp add: probed_footage_def)
qed

subsection \<open>Two-sided membership of edges\<close>

lemma on_output_side_DisconnectEdge:
  "on_output_side (DisconnectEdge s e) e' = (e' \<noteq> e \<and> on_output_side s e')"
  by (auto simp: on_output_side_def DisconnectEdge_edges_output)

lemma on_input_side_DisconnectEdge:
  "on_input_side (DisconnectEdge s e) e' = (e' \<noteq> e \<and> on_input_side s e')"
  by (auto simp: on_input_side_def DisconnectEdge_edges_input)

lemma on_output_side_with_new_edge:
  "on_output_side (with_new_edge s1 out inp) e = (e = next_edge s1 \<or> on_output_side s1 e)"
  by (auto simp: on_output_side_def with_new_edge_def)

lemma on_input_side_with_new_edge:
  "on_input_side (with_new_edge s1 out inp) e = (e = next_edge s1 \<or> on_input_side s1 e)"
  by (auto simp: on_input_side_def with_new_edge_def)

lemma two_sided_DisconnectEdge: "two_sided s \<Longrightarrow> two_sided (DisconnectEdge s e)"
  by (simp add: two_sided_def on_output_side_DisconnectEdge on_input_side_DisconnectEdge)

lemma two_sided_DisconnectForNewOutput:
  "two_sided s \<Longrightarrow> two_sided (snd (DisconnectForNewOutput s inp))"
  by (simp add: DisconnectForNewOutput_def two_sided_DisconnectEdge split: list.splits)

lemma two_sided_with_new_edge: "two_sided s1 \<Longrightarrow> two_sided (with_new_edge s1 out inp)"
  by (simp add: two_sided_def on_output_side_with_new_edge on_input_side_with_new_edge)

lemma two_sided_ConnectEdge: "two_sided s \<Longrightarrow> two_sided (snd (ConnectEdge s out inp))"
  using ConnectEdge_result [of s out inp]
  by (auto simp: two_sided_DisconnectForNewOutput two_sided_with_new_edge)

lemma two_sided_DisconnectEdge_between:
  "two_sided s \<Longrightarrow> two_sided (DisconnectEdge_between s out inp)"
  by (simp add: DisconnectEdge_between_def two_sided_DisconnectEdge split: option.splits)

lemma two_sided_apply_edit: "two_sided s \<Longrightarrow> two_sided (apply_edit s ed)"
  by (cases ed)
    (simp_all add: two_sided_ConnectEdge two_sided_DisconnectEdge two_sided_DisconnectEdge_between)

lemma two_sided_apply_edits: "two_sided s \<Longrightarrow> two_sided (apply_edits s eds)"
  by (induction eds arbitrary: s) (simp_all add: two_sided_apply_edit)

lemma two_sided_no_edges:
  assumes "\<And>r. edges (output_store s r) = []" and "\<And>r. edges (input_store s r) = []"
  shows "two_sided s"
  by (simp add: two_sided_def on_output_side_def on_input_side_def assms)

text \<open>
  C5: from a state in which every edge is in the list of its output exactly when it is in
  the list of its input (the graph without edges is one), every sequence of ConnectEdge
  and DisconnectEdge operations leads to such a state again; and after DisconnectEdge(edge)
  the edge is in neither of its endpoints' lists.
\<close>

theorem edge_membership_two_sided:
  "(two_sided s \<longrightarrow> two_sided (apply_edits s eds))
   \<and> \<not> on_output_side (DisconnectEdge s e) e
   \<and> \<not> on_input_side (DisconnectEdge s e) e"
  by (simp add: two_sided_apply_edits on_output_side_DisconnectEdge on_input_side_DisconnectEdge)

theorem edge_membership_two_sided_witness:
  "two_sided scene
   \<and> two_sided (apply_edits scene
        [Connect 0 0, Connect 3 1, Connect 1 0, Connect 3 0, Disconnect 1, DisconnectBetween 3 0])
   \<and> on_output_side connected_scene 0 \<and> on_input_side connected_scene 0
   \<and> \<not> on_output_side (DisconnectEdge connected_scene 0) 0
   \<and> \<not> on_input_side (DisconnectEdge connected_scene 0) 0"
proof -
  have start: "two_sided scene"
    by (rule two_sided_no_edges) (simp_all add: scene_def)
  have before: "on_output_side connected_scene 0 \<and> on_input_side connected_scene 0"
    by (simp add: on_output_side_def on_input_side_def model_defs scene_defs)
  from edge_membership_two_sided [of scene
      "[Connect 0 0, Connect 3 1, Connect 1 0, Connect 3 0, Disconnect 1, DisconnectBetween 3 0]"]
    edge_membership_two_sided [of connected_scene "[]" 0] start before
  show ?thesis
    by simp
qed

subsection \<open>The cached time after an edge changes\<close>

lemma with_new_edge_time:
  "time (input_store (with_new_edge s1 out inp) r) =
     (if r = inp then - 1 else time (input_store s1 r))"
  by (simp add: with_new_edge_def)

lemma ConnectEdge_time_of_replaced:
  assumes "edges (input_store s inp) = old # rest"
  shows "time (input_store (snd (ConnectEdge s out inp)) (edge_input (edge_heap s old))) = - 1"
proof -
  have s1: "snd (DisconnectForNewOutput s inp) = DisconnectEdge s old"
    by (simp add: DisconnectForNewOutput_def assms)
  from ConnectEdge_result [of s out inp] show ?thesis
    by (auto simp: s1 DisconnectEdge_time with_new_edge_time)
qed

text \<open>
  C6: after a ConnectEdge that added an edge to an input, and after a DisconnectEdge of an
  edge (called directly, through the overload that scans the output's list, or by
  ConnectEdge for the edge it replaces), the cached time of the input that the edge touches
  is the sentinel -1, which is not a valid request time: it differs from every time that
  is not negative.
\<close>

theorem cache_invalid_after_edge_change:
  "(ConnectEdge s out inp = (Some e, s') \<longrightarrow>
      edge_input (edge_heap s' e) = inp \<and> time (input_store s' inp) = - 1
      \<and> (valid_request_time t \<longrightarrow> time (input_store s' inp) \<noteq> t))
   \<and> time (input_store (DisconnectEdge s e) (edge_input (edge_heap s e))) = - 1
   \<and> (valid_request_time t \<longrightarrow>
        time (input_store (DisconnectEdge s e) (edge_input (edge_heap s e))) \<noteq> t)
   \<and> (first_edge_to (edge_heap s) inp (edges (output_store s out)) = Some e \<longrightarrow>
        time (input_store (DisconnectEdge_between s out inp) inp) = - 1)
   \<and> (edges (input_store s inp) = old # rest \<longrightarrow>
        time (input_store (snd (ConnectEdge s out inp)) (edge_input (edge_heap s old))) = - 1)"
proof -
  have neg: "valid_request_time t \<longrightarrow> - 1 \<noteq> t"
    by (auto simp: valid_request_time_def)
  have added: "edge_input (edge_heap s' e) = inp \<and> time (input_store s' inp) = - 1"
    if "ConnectEdge s out inp = (Some e, s')"
    using ConnectEdge_Some [OF that] by (simp add: with_new_edge_def)
  have scanned: "time (input_store (DisconnectEdge_between s out inp) inp) = - 1"
    if "first_edge_to (edge_heap s) inp (edges (output_store s out)) = Some e"
    using first_edge_to_Some [OF that] DisconnectEdge_time [of s e]
    by (simp add: DisconnectEdge_between_def that)
  from neg added scanned ConnectEdge_time_of_replaced [of s inp old rest out] show ?thesis
    by (simp add: DisconnectEdge_time)
qed

theorem cache_invalid_after_edge_change_witness:
  "time (input_store scene 0) = 5 \<and> valid_request_time 5
   \<and> ConnectEdge scene 0 0 = (Some 0, connected_scene)
   \<and> time (input_store connected_scene 0) = - 1
   \<and> time (input_store resolved_scene 0) = 5
   \<and> edges (input_store resolved_scene 0) = [0]
   \<and> edge_input (edge_heap resolved_scene 0) = 0
   \<and> first_edge_to (edge_heap resolved_scene) 0 (edges (output_store resolved_scene 0)) = Some 0
   \<and> time (input_store (DisconnectEdge resolved_scene 0) 0) = - 1
   \<and> time (input_store (DisconnectEdge_between resolved_scene 0 0) 0) = - 1
   \<and> time (input_store (snd (ConnectEdge resolved_scene 1 0)) 0) = - 1"
proof -
  have ret: "fst (ConnectEdge scene 0 0) = Some 0"
    by (simp add: model_defs scene_defs)
  then have ok: "ConnectEdge scene 0 0 = (Some 0, connected_scene)"
    by (simp add: prod_eq_iff connected_scene_def)
  have v: "valid_request_time 5"
    by (simp add: valid_request_time_def)
  have pre: "time (input_store scene 0) = 5 \<and> time (input_store resolved_scene 0) = 5
      \<and> edges (input_store resolved_scene 0) = [0] \<and> edge_input (edge_heap resolved_scene 0) = 0
      \<and> first_edge_to (edge_heap resolved_scene) 0 (edges (output_store resolved_scene 0)) = Some 0"
    by (simp add: model_defs scene_defs)
  from cache_invalid_after_edge_change [of scene 0 0 0 connected_scene 5]
    cache_invalid_after_edge_change
      [where s = resolved_scene and e = 0 and out = 0 and inp = 0 and old = 0 and rest = "[]"]
    cache_invalid_after_edge_change
      [where s = resolved_scene and out = 1 and inp = 0 and old = 0 and rest = "[]"]
    ok v pre
  show ?thesis
    by simp
qed

subsection \<open>A rejected or repeated connection on a connected input\<close>

text \<open>
  What \<open>ConnectEdge\<close> returns when it returns null: the state that \<open>DisconnectForNewOutput\<close>
  left, in which the first edge of the input is gone.
\<close>

lemma ConnectEdge_None:
  "ConnectEdge s out inp = (None, s') \<Longrightarrow> s' = snd (DisconnectForNewOutput s inp)"
  using ConnectEdge_result [of s out inp] by auto

lemma ConnectEdge_None_unconnected:
  "ConnectEdge s out inp = (None, s') \<Longrightarrow> edges (input_store s inp) = [] \<Longrightarrow> s' = s"
  by (auto dest: ConnectEdge_None simp: DisconnectForNewOutput_def)

text \<open>
  C1 fails on the code. In the connected scene input 0 holds edge 0 from output 0. Output 1
  is a String output, which the input does not accept; output 2 is on a node of another
  graph. Each of the two calls returns null, and the edge that was there is gone from
  the input's list and from the list of output 0.
\<close>

theorem rejected_connect_drops_edge:
  "\<not> can_accept_type (input_store connected_scene 0) (data_type (output_store connected_scene 1))
   \<and> node_graph connected_scene (parent (output_store connected_scene 2))
       \<noteq> node_graph connected_scene (parent (input_store connected_scene 0))
   \<and> edges (input_store connected_scene 0) = [0]
   \<and> edges (output_store connected_scene 0) = [0]
   \<and> fst (ConnectEdge connected_scene 1 0) = None
   \<and> edges (input_store (snd (ConnectEdge connected_scene 1 0)) 0) = []
   \<and> edges (output_store (snd (ConnectEdge connected_scene 1 0)) 0) = []
   \<and> fst (ConnectEdge connected_scene 2 0) = None
   \<and> edges (input_store (snd (ConnectEdge connected_scene 2 0)) 0) = []
   \<and> edges (output_store (snd (ConnectEdge connected_scene 2 0)) 0) = []"
  by (simp add: model_defs scene_defs)

text \<open>
  C3 fails on the code. In the connected scene edge 0 leads from output 0 to input 0.
  Connecting output 0 to input 0 again disconnects edge 0 before the test for a duplicate,
  which then finds nothing: the call returns the new edge 1, both lists hold edge 1 in
  place of edge 0, and two signals were emitted.
\<close>

theorem repeated_connect_replaces_edge:
  "edges (input_store connected_scene 0) = [0]
   \<and> edge_heap connected_scene 0 = \<lparr>edge_output = 0, edge_input = 0\<rparr>
   \<and> has_edge_from (edge_heap connected_scene) 0 (edges (input_store connected_scene 0))
   \<and> fst (ConnectEdge connected_scene 0 0) = Some 1
   \<and> edges (input_store (snd (ConnectEdge connected_scene 0 0)) 0) = [1]
   \<and> edges (output_store (snd (ConnectEdge connected_scene 0 0)) 0) = [1]
   \<and> emitted (snd (ConnectEdge connected_scene 0 0))
       = emitted connected_scene @ [EdgeRemoved 0 0, EdgeAdded 0 1]"
  by (simp add: model_defs scene_defs)

subsection \<open>The order of the decoders\<close>

lemma probe_loop_accepted:
  "fst (probe_loop ds f) \<Longrightarrow>
     status (snd (probe_loop ds f)) = kReady
     \<and> decoder (snd (probe_loop ds f)) \<in> decoder_id ` set ds"
proof (induction ds arbitrary: f)
  case Nil
  then show ?case by simp
next
  case (Cons d ds)
  obtain accepted f' where p: "Probe d f = (accepted, f')"
    by (cases "Probe d f")
  show ?case
  proof (cases accepted)
    case True
    with p show ?thesis
      by (simp add: set_status_def set_decoder_def)
  next
    case False
    with p Cons.prems have "fst (probe_loop ds f')"
      by simp
    from Cons.IH [OF this] p False show ?thesis
      by simp
  qed
qed

lemma probe_loop_rejected:
  "\<not> fst (probe_loop ds f) \<Longrightarrow>
     status (snd (probe_loop ds f)) = kInvalid \<and> decoder (snd (probe_loop ds f)) = []"
proof (induction ds arbitrary: f)
  case Nil
  then show ?case by (simp add: set_status_def set_decoder_def)
next
  case (Cons d ds)
  obtain accepted f' where p: "Probe d f = (accepted, f')"
    by (cases "Probe d f")
  with Cons.prems have rej: "\<not> accepted" and rest: "\<not> fst (probe_loop ds f')"
    by (auto split: if_splits)
  from Cons.IH [OF rest] p rej show ?case
    by simp
qed

text \<open>
  C7 fails on the code for a record that the two tests at the head of \<open>ProbeMedia\<close> turn
  away. A record that was probed before and whose file is gone: both decoders reject it,
  \<open>ProbeMedia\<close> returns false, and the status is still Ready, not Invalid.
\<close>

theorem probe_missing_file_not_invalid:
  "\<not> fst (Probe (reject_all ''oiio'') (probed_footage ''clip.mov''))
   \<and> \<not> fst (Probe (reject_all ''ffmpeg'') (probed_footage ''clip.mov''))
   \<and> \<not> fst (ProbeMedia no_file (reject_all ''oiio'') (reject_all ''ffmpeg'')
             (probed_footage ''clip.mov''))
   \<and> status (snd (ProbeMedia no_file (reject_all ''oiio'') (reject_all ''ffmpeg'')
             (probed_footage ''clip.mov''))) = kReady
   \<and> status (snd (ProbeMedia no_file (reject_all ''oiio'') (reject_all ''ffmpeg'')
             (probed_footage ''clip.mov''))) \<noteq> kInvalid"
  by (simp add: ProbeMedia_def no_file_def reject_all_def probed_footage_def)

text \<open>
  C7 (amended): for a media record whose filename is not empty and names a file that
  exists, ProbeMedia tries the still-image decoder (OpenImageIO) before the generic decoder
  (FFmpeg) and stops at the first whose Probe accepts. When the first accepts, the result is
  true, the status Ready and the recorded identifier the first decoder's, whatever the
  second decoder is; when the first rejects and the second accepts, the result is true, the
  status Ready and the identifier the second's; when both reject, the result is false and
  the status Invalid.
\<close>

theorem probe_first_accepting_decoder:
  assumes "filename f \<noteq> []" and "file_exists (filename f)"
  shows
    "(fst (Probe OIIODecoder (Clear f)) \<longrightarrow>
        fst (ProbeMedia file_exists OIIODecoder FFmpegDecoder f)
        \<and> status (snd (ProbeMedia file_exists OIIODecoder FFmpegDecoder f)) = kReady
        \<and> decoder (snd (ProbeMedia file_exists OIIODecoder FFmpegDecoder f)) = decoder_id OIIODecoder
        \<and> ProbeMedia file_exists OIIODecoder other f = ProbeMedia file_exists OIIODecoder FFmpegDecoder f)
     \<and> (\<not> fst (Probe OIIODecoder (Clear f))
          \<and> fst (Probe FFmpegDecoder (snd (Probe OIIODecoder (Clear f)))) \<longrightarrow>
        fst (ProbeMedia file_exists OIIODecoder FFmpegDecoder f)
        \<and> status (snd (ProbeMedia file_exists OIIODecoder FFmpegDecoder f)) = kReady
        \<and> decoder (snd (ProbeMedia file_exists OIIODecoder FFmpegDecoder f)) = decoder_id FFmpegDecoder)
     \<and> (\<not> fst (Probe OIIODecoder (Clear f))
          \<and> \<not> fst (Probe FFmpegDecoder (snd (Probe OIIODecoder (Clear f)))) \<longrightarrow>
        \<not> fst (ProbeMedia file_exists OIIODecoder FFmpegDecoder f)
        \<and> status (snd (ProbeMedia file_exists OIIODecoder FFmpegDecoder f)) = kInvalid)"
proof -
  obtain a1 f1 where p1: "Probe OIIODecoder (Clear f) = (a1, f1)"
    by (cases "Probe OIIODecoder (Clear f)")
  obtain a2 f2 where p2: "Probe FFmpegDecoder f1 = (a2, f2)"
    by (cases "Probe FFmpegDecoder f1")
  have run: "ProbeMedia file_exists OIIODecoder d f = probe_loop [OIIODecoder, d] (Clear f)" for d
    using assms by (simp add: ProbeMedia_def ReceiveListOfAllDecoders_def)
  show ?thesis
    unfolding run using p1 p2
    by (simp add: set_status_def set_decoder_def)
qed

theorem probe_first_accepting_decoder_witness:
  "filename (probed_footage ''clip.mov'') \<noteq> [] \<and> any_file (filename (probed_footage ''clip.mov''))
   \<and> fst (Probe (accept_all ''oiio'') (Clear (probed_footage ''clip.mov'')))
   \<and> fst (Probe (accept_all ''ffmpeg'') (Clear (probed_footage ''clip.mov'')))
   \<and> \<not> fst (Probe (reject_all ''oiio'') (Clear (probed_footage ''clip.mov'')))
   \<and> \<not> fst (Probe (reject_all ''ffmpeg'') (Clear (probed_footage ''clip.mov'')))
   \<and> ProbeMedia any_file (accept_all ''oiio'') (accept_all ''ffmpeg'') (probed_footage ''clip.mov'')
       = (True, \<lparr>filename = ''clip.mov'', timestamp = None, streams = [''oiio''],
                 status = kReady, decoder = ''oiio''\<rparr>)
   \<and> ProbeMedia any_file (reject_all ''oiio'') (accept_all ''ffmpeg'') (probed_footage ''clip.mov'')
       = (True, \<lparr>filename = ''clip.mov'', timestamp = None, streams = [''ffmpeg''],
                 status = kReady, decoder = ''ffmpeg''\<rparr>)
   \<and> ProbeMedia any_file (reject_all ''oiio'') (reject_all ''ffmpeg'') (probed_footage ''clip.mov'')
       = (False, \<lparr>filename = ''clip.mov'', timestamp = None, streams = [],
                  status = kInvalid, decoder = []\<rparr>)"
proof -
  have h1: "filename (probed_footage ''clip.mov'') \<noteq> []"
    by (simp add: probed_footage_def)
  have h2: "any_file (filename (probed_footage ''clip.mov''))"
    by (simp add: any_file_def)
  note inst = probe_first_accepting_decoder [where file_exists = any_file, OF h1 h2]
  have acc: "fst (Probe (accept_all ident) g)" and rej: "\<not> fst (Probe (reject_all ident) g)"
    for ident and g :: "string Footage"
    by (simp_all add: accept_all_def reject_all_def)
  have both: "fst (ProbeMedia any_file (accept_all ''oiio'') (accept_all ''ffmpeg'')
        (probed_footage ''clip.mov''))
      \<and> decoder (snd (ProbeMedia any_file (accept_all ''oiio'') (accept_all ''ffmpeg'')
        (probed_footage ''clip.mov''))) = ''oiio''"
    using inst [of "accept_all ''oiio''" "accept_all ''ffmpeg''"] acc
    by (simp add: accept_all_def)
  have second: "fst (ProbeMedia any_file (reject_all ''oiio'') (accept_all ''ffmpeg'')
        (probed_footage ''clip.mov''))
      \<and> decoder (snd (ProbeMedia any_file (reject_all ''oiio'') (accept_all ''ffmpeg'')
        (probed_footage ''clip.mov''))) = ''ffmpeg''"
    using inst [of "reject_all ''oiio''" "accept_all ''ffmpeg''"] acc rej
    by (simp add: accept_all_def)
  have none: "\<not> fst (ProbeMedia any_file (reject_all ''oiio'') (reject_all ''ffmpeg'')
        (probed_footage ''clip.mov''))"
    using inst [of "reject_all ''oiio''" "reject_all ''ffmpeg''"] rej
    by simp
  from both second none h1 h2 acc rej show ?thesis
    by (simp add: ProbeMedia_def ReceiveListOfAllDecoders_def any_file_def probed_footage_def
        accept_all_def reject_all_def Clear_def set_status_def set_decoder_def)
qed

end
